theory Spec2Isabelle
  imports Main
begin

section \<open>C++ types as the checks of beast/asio/type\_check.h see them\<close>

text \<open>
  The header computes booleans from types at compile time. A type is modelled by the
  facts about it that the header's probes ask the compiler for: whether it can be
  copied and destroyed, its base classes, its nested type names, and which member
  call expressions on an object of the type are well-formed, with the type
  (\<open>decltype\<close>) of each.
\<close>

datatype scalar =
    bool_t | char_t | short_t | int_t | long_t
  | unsigned_int_t | unsigned_long_t | float_t | double_t

datatype value_category = lvalue | xvalue | prvalue

text \<open>
  A class is \<open>Class name copy_constructible destructible bases typedefs calls commas\<close>.
  \<open>typedefs\<close> and \<open>calls\<close> hold what name lookup in the class finds, inherited
  members included.

  An entry \<open>((vc, c, f, args), r)\<close> of \<open>calls\<close> says: for an object expression of
  this class of value category \<open>vc\<close>, const-qualified iff \<open>c\<close>, the call
  \<open>obj.f(args)\<close> is well-formed and \<open>decltype(obj.f(args))\<close> is \<open>r\<close>. An
  argument is an expression, given by its value category and type. A call expression with
  no entry is ill-formed.

  \<open>commas\<close> holds the user-declared comma operators that overload resolution selects
  for \<open>obj, std::true_type{}\<close>, by the value category and constness of \<open>obj\<close>:
  an entry \<open>Some r\<close> is an operator that can be called and returns \<open>r\<close>, an
  entry \<open>None\<close> one that is deleted or inaccessible, so that the expression is
  ill-formed; with no entry the built-in comma operator applies. A comma operator
  declared for a left operand that is no class object, a pointer to the class say, is
  outside this grammar.

  The only static data member a class can have is the \<open>value\<close> of a base
  \<open>std::integral_constant\<close>. \<open>Array\<close> is an array of known bound. Volatile
  qualification, unions and enumerations are outside this grammar.
\<close>

datatype cpp_type =
    Void
  | Scalar scalar
  | Ptr cpp_type
  | LRef cpp_type
  | RRef cpp_type
  | Const cpp_type
  | Array cpp_type
  | Function cpp_type "cpp_type list"
  | Class string bool bool "cpp_type list" "(string \<times> cpp_type) list"
      "((value_category \<times> bool \<times> string \<times> (value_category \<times> cpp_type) list) \<times> cpp_type) list"
      "((value_category \<times> bool) \<times> cpp_type option) list"

type_synonym expr = "value_category \<times> cpp_type"

type_synonym call_table =
  "((value_category \<times> bool \<times> string \<times> expr list) \<times> cpp_type) list"

text \<open>
  What comes of forming a type inside a template: \<open>Inr (Some t)\<close> when the type
  \<open>t\<close> is formed; \<open>Inr None\<close> for a substitution failure, an error in the
  immediate context, which removes the template from consideration; and
  \<open>Inl hard_error\<close> for an error outside the immediate context, with which the
  program does not compile. A check that may not compile has a result in
  \<open>error + bool\<close>.
\<close>

datatype error = hard_error

type_synonym 'a substitution = "error + 'a option"

text \<open>\<open>std::size_t\<close> is an alias of an unsigned integer type (\<open>unsigned long\<close> on LP64).\<close>

definition size_t :: cpp_type where
  "size_t = Scalar unsigned_long_t"

subsection \<open>The standard library's traits\<close>

fun is_class :: "cpp_type \<Rightarrow> bool" where
  "is_class (Class n cc d bs tds cs ops) = True"
| "is_class _ = False"

fun remove_reference :: "cpp_type \<Rightarrow> cpp_type" where
  "remove_reference (LRef t) = t"
| "remove_reference (RRef t) = t"
| "remove_reference t = t"

fun remove_cv :: "cpp_type \<Rightarrow> cpp_type" where
  "remove_cv (Const t) = t"
| "remove_cv t = t"

text \<open>
  \<open>std::decay_t\<close>: the reference is removed; then an array becomes a pointer to its
  element, a function a pointer to itself, and any other type loses its top-level
  qualifier.
\<close>

definition decay_t :: "cpp_type \<Rightarrow> cpp_type" where
  "decay_t T =
     (let U = remove_reference T in
      case U of
        Array e \<Rightarrow> Ptr e
      | Function r ps \<Rightarrow> Ptr U
      | _ \<Rightarrow> remove_cv U)"

text \<open>
  \<open>std::is_copy_constructible<T>\<close> is \<open>std::is_constructible<T, T const&>\<close>;
  for a class it is the class's own answer.
\<close>

fun is_copy_constructible :: "cpp_type \<Rightarrow> bool" where
  "is_copy_constructible Void = False"
| "is_copy_constructible (Scalar s) = True"
| "is_copy_constructible (Ptr t) = True"
| "is_copy_constructible (LRef t) = True"
| "is_copy_constructible (RRef (Function r ps)) = True"
| "is_copy_constructible (RRef t) = False"
| "is_copy_constructible (Const t) = is_copy_constructible t"
| "is_copy_constructible (Array e) = False"
| "is_copy_constructible (Function r ps) = False"
| "is_copy_constructible (Class n cc d bs tds cs ops) = cc"

fun is_destructible :: "cpp_type \<Rightarrow> bool" where
  "is_destructible Void = False"
| "is_destructible (Scalar s) = True"
| "is_destructible (Ptr t) = True"
| "is_destructible (LRef t) = True"
| "is_destructible (RRef t) = True"
| "is_destructible (Const t) = is_destructible t"
| "is_destructible (Array e) = is_destructible e"
| "is_destructible (Function r ps) = False"
| "is_destructible (Class n cc d bs tds cs ops) = d"

text \<open>
  \<open>std::is_base_of<Base, Derived>\<close>: both are classes (qualifiers ignored) and
  \<open>Derived\<close> is \<open>Base\<close> or has it among its direct or indirect bases.
\<close>

fun derived_from :: "cpp_type \<Rightarrow> cpp_type \<Rightarrow> bool" where
  "derived_from B (Class n cc d bs tds cs ops) =
     (B = Class n cc d bs tds cs ops \<or> list_ex (derived_from B) bs)"
| "derived_from B _ = False"

definition is_base_of :: "cpp_type \<Rightarrow> cpp_type \<Rightarrow> bool" where
  "is_base_of Base Derived =
     (is_class (remove_cv Base) \<and> derived_from (remove_cv Base) (remove_cv Derived))"

text \<open>The five iterator category tags of \<open><iterator>\<close>, with their inheritance.\<close>

definition input_iterator_tag :: cpp_type where
  "input_iterator_tag = Class ''std::input_iterator_tag'' True True [] [] [] []"

definition output_iterator_tag :: cpp_type where
  "output_iterator_tag = Class ''std::output_iterator_tag'' True True [] [] [] []"

definition forward_iterator_tag :: cpp_type where
  "forward_iterator_tag =
     Class ''std::forward_iterator_tag'' True True [input_iterator_tag] [] [] []"

definition bidirectional_iterator_tag :: cpp_type where
  "bidirectional_iterator_tag =
     Class ''std::bidirectional_iterator_tag'' True True [forward_iterator_tag] [] [] []"

definition random_access_iterator_tag :: cpp_type where
  "random_access_iterator_tag =
     Class ''std::random_access_iterator_tag'' True True [bidirectional_iterator_tag] [] [] []"

subsection \<open>The expressions the probes form\<close>

text \<open>
  \<open>std::declval<U>()\<close> has type \<open>U&&\<close>: an lvalue when \<open>U\<close> is an lvalue
  reference, an xvalue otherwise (for \<open>void\<close>, a prvalue of type \<open>void\<close>).
\<close>

fun declval :: "cpp_type \<Rightarrow> expr" where
  "declval (LRef t) = (lvalue, t)"
| "declval (RRef t) = (xvalue, t)"
| "declval Void = (prvalue, Void)"
| "declval t = (xvalue, t)"

text \<open>
  \<open>decltype(obj.f(args))\<close>, or \<open>None\<close> when the call is ill-formed (a
  substitution failure where it stands in a template's default argument). Only an object
  of class type has member functions.
\<close>

fun member_call :: "expr \<Rightarrow> string \<Rightarrow> expr list \<Rightarrow> cpp_type option" where
  "member_call (vc, Class n cc d bs tds cs ops) f args = map_of cs (vc, False, f, args)"
| "member_call (vc, Const (Class n cc d bs tds cs ops)) f args = map_of cs (vc, True, f, args)"
| "member_call (vc, t) f args = None"

text \<open>
  \<open>typename U::name\<close>, or \<open>None\<close> when \<open>U\<close> is not a class or has no such
  nested type.
\<close>

fun member_type :: "cpp_type \<Rightarrow> string \<Rightarrow> cpp_type option" where
  "member_type (Class n cc d bs tds cs ops) name = map_of tds name"
| "member_type (Const (Class n cc d bs tds cs ops)) name = map_of tds name"
| "member_type t name = None"

text \<open>
  \<open>typename std::iterator_traits<It>::iterator_category\<close>, by the rules of C++14 and
  C++17, for which the header is written. The specialisation for a pointer \<open>T*\<close> is
  taken for every \<open>T\<close>; it gives random access and declares \<open>reference\<close> as
  \<open>T&\<close>, so that instantiating it for a pointer to \<open>void\<close> is an error, and one
  outside the immediate context of the probe. For any other type the traits have members
  exactly when the type has all five nested types \<open>difference_type\<close>,
  \<open>value_type\<close>, \<open>pointer\<close>, \<open>reference\<close> and \<open>iterator_category\<close>;
  otherwise naming \<open>iterator_category\<close> is a substitution failure.
\<close>

definition iterator_types :: "string list" where
  "iterator_types =
     [''difference_type'', ''value_type'', ''pointer'', ''reference'', ''iterator_category'']"

fun iterator_category :: "cpp_type \<Rightarrow> cpp_type substitution" where
  "iterator_category (Ptr t) =
     (if remove_cv t = Void then Inl hard_error else Inr (Some random_access_iterator_tag))"
| "iterator_category It =
     (if list_all (\<lambda>name. member_type It name \<noteq> None) iterator_types
      then Inr (member_type It ''iterator_category'')
      else Inr None)"

text \<open>A member function with no ref-qualifier: callable on lvalues and rvalues.\<close>

definition member_function :: "string \<Rightarrow> expr list \<Rightarrow> cpp_type \<Rightarrow> call_table" where
  "member_function f args r = [((lvalue, False, f, args), r), ((xvalue, False, f, args), r)]"

definition const_member_function :: "string \<Rightarrow> expr list \<Rightarrow> cpp_type \<Rightarrow> call_table" where
  "const_member_function f args r =
     member_function f args r @ [((lvalue, True, f, args), r), ((xvalue, True, f, args), r)]"

text \<open>
  \<open>std::true_type\<close> and \<open>std::false_type\<close>, and \<open>T::value\<close> for a type
  \<open>T\<close> used as one: the \<open>value\<close> of the \<open>std::integral_constant\<close> that
  \<open>T\<close> is or derives from. Where \<open>T\<close> is no such class, derives from both, or
  hides the name \<open>value\<close> by a nested type or a member function of that name,
  \<open>T::value\<close> is no boolean constant and the expression that names it is an error.
\<close>

definition true_type :: cpp_type where
  "true_type =
     Class ''std::integral_constant<bool, true>'' True True []
       [(''value_type'', Scalar bool_t)]
       (const_member_function ''operator()'' [] (Scalar bool_t)) []"

definition false_type :: cpp_type where
  "false_type =
     Class ''std::integral_constant<bool, false>'' True True []
       [(''value_type'', Scalar bool_t)]
       (const_member_function ''operator()'' [] (Scalar bool_t)) []"

definition integral_constant :: "bool \<Rightarrow> cpp_type" where
  "integral_constant v = (if v then true_type else false_type)"

fun hides_value :: "cpp_type \<Rightarrow> bool" where
  "hides_value (Class n cc d bs tds cs ops) =
     (map_of tds ''value'' \<noteq> None \<or>
      list_ex (\<lambda>entry. fst (snd (snd (fst entry))) = ''value'') cs)"
| "hides_value t = False"

definition integral_value :: "cpp_type \<Rightarrow> error + bool" where
  "integral_value T =
     (let C = remove_cv T in
      if hides_value C then Inl hard_error
      else if derived_from true_type C \<and> \<not> derived_from false_type C then Inr True
      else if derived_from false_type C \<and> \<not> derived_from true_type C then Inr False
      else Inl hard_error)"

text \<open>
  A call whose \<open>decltype\<close> is \<open>t\<close>, as an expression: an lvalue when \<open>t\<close> is an
  lvalue reference, an xvalue when it is an rvalue reference, a prvalue otherwise.
\<close>

fun call_result :: "cpp_type \<Rightarrow> expr" where
  "call_result (LRef t) = (lvalue, t)"
| "call_result (RRef t) = (xvalue, t)"
| "call_result t = (prvalue, t)"

text \<open>
  \<open>decltype(e, std::true_type{})\<close>. The header writes the comma with no cast to
  \<open>void\<close> of its left operand, so for an operand of class type a user-declared
  \<open>operator,\<close> is considered: the expression then has that operator's result type,
  or is ill-formed when the operator selected is deleted. For \<open>void\<close> and the other
  types that are no classes the comma is the built-in one and the type is
  \<open>std::true_type\<close>.
\<close>

fun comma_true_type :: "expr \<Rightarrow> cpp_type option" where
  "comma_true_type (vc, Class n cc d bs tds cs ops) =
     (case map_of ops (vc, False) of None \<Rightarrow> Some true_type | Some r \<Rightarrow> r)"
| "comma_true_type (vc, Const (Class n cc d bs tds cs ops)) =
     (case map_of ops (vc, True) of None \<Rightarrow> Some true_type | Some r \<Rightarrow> r)"
| "comma_true_type (vc, t) = Some true_type"

text \<open>
  Overload resolution of \<open>check<T>(0)\<close> between \<open>template<class U, class R = ...>
  static R check(int)\<close> and \<open>template<class> static std::false_type check(...)\<close>:
  when the default argument \<open>R\<close> can be formed the first overload is the better
  match and the result is \<open>R\<close>; when its substitution fails only the second is
  viable. \<open>decltype_check\<close> reads the boolean of an \<open>R\<close> that is a library
  trait, given as \<open>Some\<close> of its value or \<open>None\<close> for a substitution failure;
  \<open>decltype_check_type\<close> gives the type itself.
\<close>

definition decltype_check :: "bool option \<Rightarrow> bool" where
  "decltype_check R = (case R of Some b \<Rightarrow> b | None \<Rightarrow> False)"

definition decltype_check_type :: "cpp_type option \<Rightarrow> cpp_type" where
  "decltype_check_type R = (case R of Some t \<Rightarrow> t | None \<Rightarrow> false_type)"

section \<open>namespace concept: the types used with declval\<close>

definition const_buffer :: cpp_type where
  "const_buffer = Class ''boost::asio::const_buffer'' True True [] [] [] []"

definition mutable_buffer :: cpp_type where
  "mutable_buffer = Class ''boost::asio::mutable_buffer'' True True [] [] [] []"

definition io_service :: cpp_type where
  "io_service = Class ''boost::asio::io_service'' False True [] [] [] []"

definition error_code :: cpp_type where
  "error_code = Class ''boost::system::error_code'' True True [] [] [] []"

definition BufferSequence :: "cpp_type \<Rightarrow> cpp_type" where
  "BufferSequence BufferType =
     Class ''beast::concept::BufferSequence'' True True []
       [(''value_type'', BufferType), (''const_iterator'', Ptr (Const BufferType))]
       (const_member_function ''begin'' [] (Ptr (Const BufferType)) @
        const_member_function ''end'' [] (Ptr (Const BufferType))) []"

definition ConstBufferSequence :: cpp_type where
  "ConstBufferSequence = BufferSequence const_buffer"

definition MutableBufferSequence :: cpp_type where
  "MutableBufferSequence = BufferSequence mutable_buffer"

definition StreamHandler :: cpp_type where
  "StreamHandler =
     Class ''beast::concept::StreamHandler'' True True [] []
       (member_function ''operator()'' [(xvalue, error_code), (xvalue, size_t)] Void) []"

definition ReadHandler :: cpp_type where
  "ReadHandler = StreamHandler"

definition WriteHandler :: cpp_type where
  "WriteHandler = StreamHandler"

section \<open>is\_BufferSequence\<close>

text \<open>
  \<open>std::is_convertible\<close> relates arbitrary pairs of types, so it is not a fact about
  one type: the checks take the compiler's relation as the argument \<open>is_convertible\<close>.

  Of the four probes only \<open>check2\<close> instantiates a class template that can be
  ill-formed inside, \<open>std::iterator_traits\<close>. The aliases \<open>type1\<close> to
  \<open>type4\<close> are members of \<open>is_BufferSequence<T, BufferType>\<close> and are formed
  when the class is instantiated, whatever the other operands of \<open>value\<close> are.
\<close>

type_synonym convertible = "cpp_type \<Rightarrow> cpp_type \<Rightarrow> bool"

definition BufferSequence_check1 :: "convertible \<Rightarrow> cpp_type \<Rightarrow> cpp_type \<Rightarrow> bool option" where
  "BufferSequence_check1 is_convertible U BufferType =
     (case member_type U ''value_type'' of
        None \<Rightarrow> None
      | Some vt \<Rightarrow> Some (is_convertible vt BufferType))"

definition BufferSequence_check2 :: "cpp_type \<Rightarrow> bool substitution" where
  "BufferSequence_check2 U =
     (case member_type U ''const_iterator'' of
        None \<Rightarrow> Inr None
      | Some it \<Rightarrow>
          (case iterator_category it of
             Inl e \<Rightarrow> Inl e
           | Inr None \<Rightarrow> Inr None
           | Inr (Some cat) \<Rightarrow> Inr (Some (is_base_of forward_iterator_tag cat))))"

definition BufferSequence_check3 :: "convertible \<Rightarrow> cpp_type \<Rightarrow> bool option" where
  "BufferSequence_check3 is_convertible U =
     (case member_call (declval U) ''begin'' [] of
        None \<Rightarrow> None
      | Some b \<Rightarrow>
          (case member_type U ''const_iterator'' of
             None \<Rightarrow> None
           | Some it \<Rightarrow> Some (is_convertible b it)))"

definition BufferSequence_check4 :: "convertible \<Rightarrow> cpp_type \<Rightarrow> bool option" where
  "BufferSequence_check4 is_convertible U =
     (case member_call (declval U) ''end'' [] of
        None \<Rightarrow> None
      | Some e \<Rightarrow>
          (case member_type U ''const_iterator'' of
             None \<Rightarrow> None
           | Some it \<Rightarrow> Some (is_convertible e it)))"

definition is_BufferSequence :: "convertible \<Rightarrow> cpp_type \<Rightarrow> cpp_type \<Rightarrow> error + bool" where
  "is_BufferSequence is_convertible T BufferType =
     (case BufferSequence_check2 T of
        Inl e \<Rightarrow> Inl e
      | Inr R2 \<Rightarrow>
          Inr (is_copy_constructible T \<and>
               is_destructible T \<and>
               decltype_check (BufferSequence_check1 is_convertible T BufferType) \<and>
               decltype_check R2 \<and>
               decltype_check (BufferSequence_check3 is_convertible T) \<and>
               decltype_check (BufferSequence_check4 is_convertible T)))"

definition is_ConstBufferSequence :: "convertible \<Rightarrow> cpp_type \<Rightarrow> error + bool" where
  "is_ConstBufferSequence is_convertible T = is_BufferSequence is_convertible T const_buffer"

definition is_MutableBufferSequence :: "convertible \<Rightarrow> cpp_type \<Rightarrow> error + bool" where
  "is_MutableBufferSequence is_convertible C = is_BufferSequence is_convertible C mutable_buffer"

section \<open>has\_get\_io\_service\<close>

definition get_io_service_check :: "cpp_type \<Rightarrow> bool option" where
  "get_io_service_check U =
     (case member_call (declval U) ''get_io_service'' [] of
        None \<Rightarrow> None
      | Some r \<Rightarrow> Some (r = LRef io_service))"

definition has_get_io_service :: "cpp_type \<Rightarrow> bool" where
  "has_get_io_service T = decltype_check (get_io_service_check T)"

section \<open>is\_AsyncReadStream, is\_AsyncWriteStream\<close>

text \<open>
  \<open>R = decltype(call, std::true_type{})\<close>, the type of the comma expression;
  \<open>type\<close> is \<open>R\<close>, or \<open>std::false_type\<close> when the call or the comma is
  ill-formed; and \<open>value\<close> names \<open>type::value\<close>, which has to be a boolean
  constant for the initialiser to compile.
\<close>

definition AsyncReadStream_check :: "cpp_type \<Rightarrow> cpp_type option" where
  "AsyncReadStream_check U =
     (case member_call (declval U) ''async_read_some''
             [declval MutableBufferSequence, declval ReadHandler] of
        None \<Rightarrow> None
      | Some r \<Rightarrow> comma_true_type (call_result r))"

definition is_AsyncReadStream :: "cpp_type \<Rightarrow> error + bool" where
  "is_AsyncReadStream T =
     (case integral_value (decltype_check_type (AsyncReadStream_check T)) of
        Inl e \<Rightarrow> Inl e
      | Inr v \<Rightarrow> Inr (has_get_io_service T \<and> v))"

definition AsyncWriteStream_check :: "cpp_type \<Rightarrow> cpp_type option" where
  "AsyncWriteStream_check U =
     (case member_call (declval U) ''async_write_some''
             [declval ConstBufferSequence, declval WriteHandler] of
        None \<Rightarrow> None
      | Some r \<Rightarrow> comma_true_type (call_result r))"

definition is_AsyncWriteStream :: "cpp_type \<Rightarrow> error + bool" where
  "is_AsyncWriteStream T =
     (case integral_value (decltype_check_type (AsyncWriteStream_check T)) of
        Inl e \<Rightarrow> Inl e
      | Inr v \<Rightarrow> Inr (has_get_io_service T \<and> v))"

section \<open>is\_SyncReadStream, is\_SyncWriteStream\<close>

definition SyncReadStream_check1 :: "cpp_type \<Rightarrow> bool option" where
  "SyncReadStream_check1 U =
     (case member_call (declval U) ''read_some'' [declval MutableBufferSequence] of
        None \<Rightarrow> None
      | Some r \<Rightarrow> Some (r = size_t))"

definition SyncReadStream_check2 :: "cpp_type \<Rightarrow> bool option" where
  "SyncReadStream_check2 U =
     (case member_call (declval U) ''read_some''
             [declval MutableBufferSequence, declval (LRef error_code)] of
        None \<Rightarrow> None
      | Some r \<Rightarrow> Some (r = size_t))"

definition is_SyncReadStream :: "cpp_type \<Rightarrow> bool" where
  "is_SyncReadStream T =
     (decltype_check (SyncReadStream_check1 T) \<and> decltype_check (SyncReadStream_check2 T))"

definition SyncWriteStream_check1 :: "cpp_type \<Rightarrow> bool option" where
  "SyncWriteStream_check1 U =
     (case member_call (declval U) ''write_some'' [declval ConstBufferSequence] of
        None \<Rightarrow> None
      | Some r \<Rightarrow> Some (r = size_t))"

definition SyncWriteStream_check2 :: "cpp_type \<Rightarrow> bool option" where
  "SyncWriteStream_check2 U =
     (case member_call (declval U) ''write_some''
             [declval ConstBufferSequence, declval (LRef error_code)] of
        None \<Rightarrow> None
      | Some r \<Rightarrow> Some (r = size_t))"

definition is_SyncWriteStream :: "cpp_type \<Rightarrow> bool" where
  "is_SyncWriteStream T =
     (decltype_check (SyncWriteStream_check1 T) \<and> decltype_check (SyncWriteStream_check2 T))"

section \<open>is\_Stream\<close>

text \<open>
  The initialiser names the \<open>value\<close> of all four checks, so it compiles only when
  each of them does; the two synchronous checks always do.
\<close>

definition is_Stream :: "cpp_type \<Rightarrow> error + bool" where
  "is_Stream T =
     (case (is_AsyncReadStream T, is_AsyncWriteStream T) of
        (Inr r, Inr w) \<Rightarrow> Inr (r \<and> w \<and> is_SyncReadStream T \<and> is_SyncWriteStream T)
      | _ \<Rightarrow> Inl hard_error)"

section \<open>is\_Streambuf\<close>

text \<open>
  The primary template is \<open>std::false_type\<close>; the partial specialisation, which is
  \<open>std::true_type\<close>, is chosen exactly when its second argument
  \<open>std::void_t<A1, ..., A5>\<close> can be formed. \<open>void_t\<close> is \<open>void\<close> for any
  types \<open>A1, ..., A5\<close>: it needs each of them to be a well-formed type and looks
  at nothing else. The arguments are substituted in lexical order and the first that
  fails decides: a substitution failure leaves the primary template, an error outside
  the immediate context stops the compilation.

  The first two arguments are \<open>std::integral_constant<bool, v>\<close>, where \<open>v\<close> is
  the \<open>value\<close> of a buffer sequence check, which has to compile for the argument to
  be formed. The literal \<open>1\<close> is a prvalue of type \<open>int\<close>.
\<close>

fun void_t :: "cpp_type substitution list \<Rightarrow> cpp_type substitution" where
  "void_t [] = Inr (Some Void)"
| "void_t (Inl e # args) = Inl e"
| "void_t (Inr None # args) = Inr None"
| "void_t (Inr (Some t) # args) = void_t args"

definition is_same :: "cpp_type \<Rightarrow> cpp_type \<Rightarrow> cpp_type" where
  "is_same A B = Class ''std::is_same'' True True [integral_constant (A = B)] [] [] []"

definition Streambuf_prepare :: "convertible \<Rightarrow> cpp_type \<Rightarrow> cpp_type substitution" where
  "Streambuf_prepare is_convertible T =
     (case member_call (declval T) ''prepare'' [(prvalue, Scalar int_t)] of
        None \<Rightarrow> Inr None
      | Some r \<Rightarrow>
          (case is_MutableBufferSequence is_convertible r of
             Inl e \<Rightarrow> Inl e
           | Inr v \<Rightarrow> Inr (Some (integral_constant v))))"

definition Streambuf_data :: "convertible \<Rightarrow> cpp_type \<Rightarrow> cpp_type substitution" where
  "Streambuf_data is_convertible T =
     (case member_call (declval T) ''data'' [] of
        None \<Rightarrow> Inr None
      | Some r \<Rightarrow>
          (case is_ConstBufferSequence is_convertible r of
             Inl e \<Rightarrow> Inl e
           | Inr v \<Rightarrow> Inr (Some (integral_constant v))))"

definition Streambuf_commit :: "cpp_type \<Rightarrow> cpp_type substitution" where
  "Streambuf_commit T =
     (case member_call (declval T) ''commit'' [(prvalue, Scalar int_t)] of
        None \<Rightarrow> Inr None
      | Some r \<Rightarrow> Inr (comma_true_type (call_result r)))"

definition Streambuf_consume :: "cpp_type \<Rightarrow> cpp_type substitution" where
  "Streambuf_consume T =
     (case member_call (declval T) ''consume'' [(prvalue, Scalar int_t)] of
        None \<Rightarrow> Inr None
      | Some r \<Rightarrow> Inr (comma_true_type (call_result r)))"

definition Streambuf_size :: "cpp_type \<Rightarrow> cpp_type substitution" where
  "Streambuf_size T =
     (case member_call (declval T) ''size'' [] of
        None \<Rightarrow> Inr None
      | Some r \<Rightarrow> Inr (Some (is_same r size_t)))"

definition is_Streambuf :: "convertible \<Rightarrow> cpp_type \<Rightarrow> error + bool" where
  "is_Streambuf is_convertible T =
     (case void_t [Streambuf_prepare is_convertible T,
                   Streambuf_data is_convertible T,
                   Streambuf_commit T,
                   Streambuf_consume T,
                   Streambuf_size T] of
        Inl e \<Rightarrow> Inl e
      | Inr None \<Rightarrow> Inr False
      | Inr (Some v) \<Rightarrow> Inr True)"

section \<open>is\_Handler\<close>

text \<open>
  A call signature \<open>R(Args...)\<close>. \<open>is_call_possible\<close> comes from
  beast/is\_call\_possible.h, which the header only includes: \<open>is_Handler\<close> takes it
  as the argument \<open>is_call_possible\<close>.
\<close>

datatype signature = Signature cpp_type "cpp_type list"

type_synonym call_possible = "cpp_type \<Rightarrow> signature \<Rightarrow> bool"

definition is_Handler :: "call_possible \<Rightarrow> cpp_type \<Rightarrow> signature \<Rightarrow> bool" where
  "is_Handler is_call_possible T Sig =
     (is_copy_constructible (decay_t T) \<and> is_call_possible T Sig)"

section \<open>Types the properties are checked on\<close>

text \<open>
  Classes described by the calls the checks probe. \<open>std::string\<close> stands for any
  class that is not \<open>std::size_t\<close>.
\<close>

definition std_string :: cpp_type where
  "std_string = Class ''std::string'' True True [] [] [] []"

definition get_io_service_member :: call_table where
  "get_io_service_member = member_function ''get_io_service'' [] (LRef io_service)"

definition async_read_some_member :: call_table where
  "async_read_some_member =
     member_function ''async_read_some'' [(xvalue, MutableBufferSequence), (xvalue, ReadHandler)] Void"

definition async_write_some_member :: call_table where
  "async_write_some_member =
     member_function ''async_write_some'' [(xvalue, ConstBufferSequence), (xvalue, WriteHandler)] Void"

definition read_some_members :: call_table where
  "read_some_members =
     member_function ''read_some'' [(xvalue, MutableBufferSequence)] size_t @
     member_function ''read_some'' [(xvalue, MutableBufferSequence), (lvalue, error_code)] size_t"

definition write_some_members :: call_table where
  "write_some_members =
     member_function ''write_some'' [(xvalue, ConstBufferSequence)] size_t @
     member_function ''write_some'' [(xvalue, ConstBufferSequence), (lvalue, error_code)] size_t"

definition full_stream :: cpp_type where
  "full_stream =
     Class ''full_stream'' False True [] []
       (get_io_service_member @ async_read_some_member @ async_write_some_member @
        read_some_members @ write_some_members) []"

definition no_async_read_stream :: cpp_type where
  "no_async_read_stream =
     Class ''no_async_read_stream'' False True [] []
       (get_io_service_member @ async_write_some_member @
        read_some_members @ write_some_members) []"

text \<open>Streams with \<open>read_some(buffers)\<close> or \<open>write_some(buffers)\<close> alone.\<close>

definition throwing_read_stream :: cpp_type where
  "throwing_read_stream =
     Class ''throwing_read_stream'' False True [] []
       (member_function ''read_some'' [(xvalue, MutableBufferSequence)] size_t) []"

definition throwing_write_stream :: cpp_type where
  "throwing_write_stream =
     Class ''throwing_write_stream'' False True [] []
       (member_function ''write_some'' [(xvalue, ConstBufferSequence)] size_t) []"

text \<open>
  A stream whose accessor returns a reference to a class derived from \<open>io_service\<close>,
  and a convertibility relation with the derived-to-base conversion of references.
\<close>

definition derived_io_service :: cpp_type where
  "derived_io_service = Class ''derived_io_service'' False True [io_service] [] [] []"

definition derived_service_stream :: cpp_type where
  "derived_service_stream =
     Class ''derived_service_stream'' False True [] []
       (member_function ''get_io_service'' [] (LRef derived_io_service)) []"

definition derived_to_base :: convertible where
  "derived_to_base From To =
     (case (From, To) of
        (LRef D, LRef B) \<Rightarrow> is_base_of B D
      | _ \<Rightarrow> From = To)"

text \<open>
  Modelled from the spec: \<open>is_call_possible\<close> of beast/is\_call\_possible.h, for a
  function object: the object is invocable with arguments of the signature's parameter
  types, and the result of the call is discarded.
\<close>

definition functor_call_possible :: call_possible where
  "functor_call_possible C Sig =
     (case Sig of Signature R Args \<Rightarrow>
        member_call (declval C) ''operator()'' (map declval Args) \<noteq> None)"

definition handler_signature :: signature where
  "handler_signature = Signature Void [error_code, size_t]"

definition move_only_handler :: cpp_type where
  "move_only_handler =
     Class ''move_only_handler'' False True [] []
       (member_function ''operator()'' [(xvalue, error_code), (xvalue, size_t)] Void) []"

text \<open>
  Stream buffers: \<open>prepare(n)\<close>, \<open>data()\<close>, \<open>commit(n)\<close>, \<open>consume(n)\<close> and
  \<open>size()\<close>, with the result types of \<open>prepare\<close>, \<open>data\<close> and \<open>size\<close>
  chosen.
\<close>

definition streambuf_members :: "cpp_type \<Rightarrow> cpp_type \<Rightarrow> cpp_type \<Rightarrow> call_table" where
  "streambuf_members prepare_result data_result size_result =
     member_function ''prepare'' [(prvalue, Scalar int_t)] prepare_result @
     const_member_function ''data'' [] data_result @
     member_function ''commit'' [(prvalue, Scalar int_t)] Void @
     member_function ''consume'' [(prvalue, Scalar int_t)] Void @
     const_member_function ''size'' [] size_result"

definition signed_size_streambuf :: cpp_type where
  "signed_size_streambuf =
     Class ''signed_size_streambuf'' True True [] []
       (streambuf_members MutableBufferSequence ConstBufferSequence (Scalar long_t)) []"


definition string_size_streambuf :: cpp_type where
  "string_size_streambuf =
     Class ''string_size_streambuf'' True True [] []
       (streambuf_members MutableBufferSequence ConstBufferSequence std_string) []"

text \<open>A stream whose \<open>read_some\<close> overloads return \<open>std::string\<close>.\<close>

definition string_read_stream :: cpp_type where
  "string_read_stream =
     Class ''string_read_stream'' False True [] []
       (member_function ''read_some'' [(xvalue, MutableBufferSequence)] std_string @
        member_function ''read_some''
          [(xvalue, MutableBufferSequence), (lvalue, error_code)] std_string) []"

text \<open>
  Variations of \<open>concept::ConstBufferSequence\<close>: one without \<open>begin()\<close>; one
  whose \<open>const_iterator\<close> is a class of the input iterator category; one whose
  \<open>const_iterator\<close> is a class with a nested \<open>iterator_category\<close> and none of
  the other four nested types of an iterator; one whose \<open>const_iterator\<close> is a
  pointer to function; and one whose \<open>const_iterator\<close> is \<open>void*\<close>.
\<close>

definition no_begin_sequence :: cpp_type where
  "no_begin_sequence =
     Class ''no_begin_sequence'' True True []
       [(''value_type'', const_buffer), (''const_iterator'', Ptr (Const const_buffer))]
       (const_member_function ''end'' [] (Ptr (Const const_buffer))) []"

definition input_iterator :: cpp_type where
  "input_iterator =
     Class ''input_iterator'' True True []
       [(''difference_type'', Scalar long_t), (''value_type'', const_buffer),
        (''pointer'', Ptr (Const const_buffer)), (''reference'', LRef (Const const_buffer)),
        (''iterator_category'', input_iterator_tag)] [] []"

definition single_pass_sequence :: cpp_type where
  "single_pass_sequence =
     Class ''single_pass_sequence'' True True []
       [(''value_type'', const_buffer), (''const_iterator'', input_iterator)]
       (const_member_function ''begin'' [] input_iterator @
        const_member_function ''end'' [] input_iterator) []"

definition bare_category_iterator :: cpp_type where
  "bare_category_iterator =
     Class ''bare_category_iterator'' True True []
       [(''iterator_category'', random_access_iterator_tag)] [] []"

definition bare_category_sequence :: cpp_type where
  "bare_category_sequence =
     Class ''bare_category_sequence'' True True []
       [(''value_type'', const_buffer), (''const_iterator'', bare_category_iterator)]
       (const_member_function ''begin'' [] bare_category_iterator @
        const_member_function ''end'' [] bare_category_iterator) []"

definition function_pointer_sequence :: cpp_type where
  "function_pointer_sequence =
     Class ''function_pointer_sequence'' True True []
       [(''value_type'', const_buffer), (''const_iterator'', Ptr (Function Void []))]
       (const_member_function ''begin'' [] (Ptr (Function Void [])) @
        const_member_function ''end'' [] (Ptr (Function Void []))) []"








section \<open>Properties\<close>

lemmas buffer_check_defs =
  BufferSequence_check1_def BufferSequence_check2_def BufferSequence_check3_def
  BufferSequence_check4_def decltype_check_def

lemma forward_or_better:
  "\<not> is_base_of forward_iterator_tag input_iterator_tag"
  "\<not> is_base_of forward_iterator_tag output_iterator_tag"
  "is_base_of forward_iterator_tag forward_iterator_tag"
  "is_base_of forward_iterator_tag bidirectional_iterator_tag"
  "is_base_of forward_iterator_tag random_access_iterator_tag"
  by (simp_all add: is_base_of_def input_iterator_tag_def output_iterator_tag_def
      forward_iterator_tag_def bidirectional_iterator_tag_def random_access_iterator_tag_def)

lemma iterator_category_pointer:
  "remove_cv t \<noteq> Void \<Longrightarrow> iterator_category (Ptr t) = Inr (Some random_access_iterator_tag)"
  "iterator_category (Ptr Void) = Inl hard_error"
  "iterator_category (Ptr (Const Void)) = Inl hard_error"
  by simp_all



lemma concept_sequences_evaluate:
  "is_MutableBufferSequence conv MutableBufferSequence \<noteq> Inl hard_error"
  "is_ConstBufferSequence conv ConstBufferSequence \<noteq> Inl hard_error"
  by (simp_all add: is_ConstBufferSequence_def is_MutableBufferSequence_def
      is_BufferSequence_def BufferSequence_check2_def
      ConstBufferSequence_def MutableBufferSequence_def BufferSequence_def
      const_buffer_def mutable_buffer_def)

text \<open>The variations of \<open>concept::ConstBufferSequence\<close>.\<close>

lemma no_begin_sequence_fails: "is_ConstBufferSequence conv no_begin_sequence = Inr False"
  by (simp add: is_ConstBufferSequence_def is_BufferSequence_def buffer_check_defs
      no_begin_sequence_def const_member_function_def member_function_def const_buffer_def)

lemma single_pass_sequence_fails: "is_ConstBufferSequence conv single_pass_sequence = Inr False"
  by (simp add: is_ConstBufferSequence_def is_BufferSequence_def buffer_check_defs
      single_pass_sequence_def input_iterator_def iterator_types_def forward_or_better)

lemma bare_category_sequence_fails:
  "is_ConstBufferSequence conv bare_category_sequence = Inr False"
  by (simp add: is_ConstBufferSequence_def is_BufferSequence_def buffer_check_defs
      bare_category_sequence_def bare_category_iterator_def iterator_types_def)

lemma function_pointer_sequence_passes:
  "is_ConstBufferSequence (=) function_pointer_sequence = Inr True"
  by (simp add: is_ConstBufferSequence_def is_BufferSequence_def buffer_check_defs
      function_pointer_sequence_def const_member_function_def member_function_def
      forward_or_better const_buffer_def)





lemmas concept_defs =
  size_t_def const_buffer_def mutable_buffer_def io_service_def error_code_def
  BufferSequence_def ConstBufferSequence_def MutableBufferSequence_def
  StreamHandler_def ReadHandler_def WriteHandler_def member_function_def
  const_member_function_def

lemmas member_defs =
  get_io_service_member_def async_read_some_member_def async_write_some_member_def
  read_some_members_def write_some_members_def

lemmas sync_check_defs =
  decltype_check_def get_io_service_check_def has_get_io_service_def
  SyncReadStream_check1_def SyncReadStream_check2_def is_SyncReadStream_def
  SyncWriteStream_check1_def SyncWriteStream_check2_def is_SyncWriteStream_def

lemmas async_check_defs =
  AsyncReadStream_check_def is_AsyncReadStream_def
  AsyncWriteStream_check_def is_AsyncWriteStream_def decltype_check_type_def

text \<open>The \<open>value\<close> of the two library constants, and of a type that is no class.\<close>

lemma integral_value_true_false:
  "integral_value true_type = Inr True"
  "integral_value false_type = Inr False"
  by (simp_all add: integral_value_def true_type_def false_type_def
      const_member_function_def member_function_def)




lemma full_stream_is_Stream: "is_Stream full_stream = Inr True"
  by (simp add: is_Stream_def sync_check_defs async_check_defs integral_value_true_false
      full_stream_def member_defs concept_defs)

text \<open>
  C2: for every type \<open>T\<close>, \<open>is_Stream<T>::value\<close> is true if and only if all four of
  \<open>is_AsyncReadStream\<close>, \<open>is_AsyncWriteStream\<close>, \<open>is_SyncReadStream\<close> and
  \<open>is_SyncWriteStream\<close> are true for \<open>T\<close>; any one of them not being true keeps
  the composite from being true. The composite compiles exactly when the two
  asynchronous checks do, and then any one of the four being false makes it false.
\<close>

theorem is_Stream_iff:
  "(is_Stream T = Inr True \<longleftrightarrow>
      is_AsyncReadStream T = Inr True \<and> is_AsyncWriteStream T = Inr True \<and>
      is_SyncReadStream T \<and> is_SyncWriteStream T) \<and>
   (is_AsyncReadStream T \<noteq> Inr True \<longrightarrow> is_Stream T \<noteq> Inr True) \<and>
   (is_AsyncWriteStream T \<noteq> Inr True \<longrightarrow> is_Stream T \<noteq> Inr True) \<and>
   (\<not> is_SyncReadStream T \<longrightarrow> is_Stream T \<noteq> Inr True) \<and>
   (\<not> is_SyncWriteStream T \<longrightarrow> is_Stream T \<noteq> Inr True) \<and>
   (is_Stream T = Inl hard_error \<longleftrightarrow>
      is_AsyncReadStream T = Inl hard_error \<or> is_AsyncWriteStream T = Inl hard_error) \<and>
   (is_Stream T \<noteq> Inl hard_error \<longrightarrow>
      (is_AsyncReadStream T = Inr False \<longrightarrow> is_Stream T = Inr False) \<and>
      (is_AsyncWriteStream T = Inr False \<longrightarrow> is_Stream T = Inr False) \<and>
      (\<not> is_SyncReadStream T \<longrightarrow> is_Stream T = Inr False) \<and>
      (\<not> is_SyncWriteStream T \<longrightarrow> is_Stream T = Inr False))"
proof (cases "is_AsyncReadStream T")
  case (Inl e)
  then show ?thesis by (cases e) (simp add: is_Stream_def)
next
  case r: (Inr a)
  show ?thesis
  proof (cases "is_AsyncWriteStream T")
    case (Inl e)
    with r show ?thesis by (cases e) (simp add: is_Stream_def)
  next
    case (Inr b)
    with r show ?thesis by (auto simp: is_Stream_def)
  qed
qed

text \<open>
  A stream that lacks only \<open>async_read_some\<close>: three of the four checks hold and the
  composite is false.
\<close>

theorem is_Stream_iff_witness:
  "is_AsyncReadStream no_async_read_stream = Inr False \<and>
   is_AsyncWriteStream no_async_read_stream = Inr True \<and>
   is_SyncReadStream no_async_read_stream \<and>
   is_SyncWriteStream no_async_read_stream \<and>
   is_Stream no_async_read_stream = Inr False"
proof -
  have h: "is_AsyncReadStream no_async_read_stream = Inr False"
    by (simp add: sync_check_defs async_check_defs integral_value_true_false
        no_async_read_stream_def member_defs concept_defs)
  have w: "is_AsyncWriteStream no_async_read_stream = Inr True"
    by (simp add: sync_check_defs async_check_defs integral_value_true_false
        no_async_read_stream_def member_defs concept_defs)
  have r: "is_SyncReadStream no_async_read_stream"
    by (simp add: sync_check_defs no_async_read_stream_def member_defs concept_defs)
  have s: "is_SyncWriteStream no_async_read_stream"
    by (simp add: sync_check_defs no_async_read_stream_def member_defs concept_defs)
  from h w is_Stream_iff [of no_async_read_stream]
  have "is_Stream no_async_read_stream = Inr False" by simp
  with h w r s show ?thesis by blast
qed




text \<open>
  C5: \<open>is_SyncReadStream<T>\<close> is true if and only if both \<open>read_some(buffers)\<close> and
  \<open>read_some(buffers, ec)\<close>, with a mutable buffer sequence and an lvalue
  \<open>error_code\<close>, are well-formed and of type exactly \<open>std::size_t\<close>; a type on
  which the call with the error code is ill-formed does not qualify.
  \<open>is_SyncWriteStream\<close> is the same over \<open>write_some\<close> with a const buffer sequence.
\<close>

theorem is_SyncStream_iff:
  "(is_SyncReadStream T \<longleftrightarrow>
      member_call (declval T) ''read_some'' [declval MutableBufferSequence] = Some size_t \<and>
      member_call (declval T) ''read_some''
        [declval MutableBufferSequence, declval (LRef error_code)] = Some size_t) \<and>
   (member_call (declval T) ''read_some''
        [declval MutableBufferSequence, declval (LRef error_code)] = None
      \<longrightarrow> \<not> is_SyncReadStream T) \<and>
   (is_SyncWriteStream T \<longleftrightarrow>
      member_call (declval T) ''write_some'' [declval ConstBufferSequence] = Some size_t \<and>
      member_call (declval T) ''write_some''
        [declval ConstBufferSequence, declval (LRef error_code)] = Some size_t) \<and>
   (member_call (declval T) ''write_some''
        [declval ConstBufferSequence, declval (LRef error_code)] = None
      \<longrightarrow> \<not> is_SyncWriteStream T)"
  unfolding is_SyncReadStream_def is_SyncWriteStream_def
    SyncReadStream_check1_def SyncReadStream_check2_def
    SyncWriteStream_check1_def SyncWriteStream_check2_def decltype_check_def
  by (auto split: option.splits)

text \<open>Two streams that offer only the overload without the error code.\<close>

theorem is_SyncStream_iff_witness:
  "member_call (declval throwing_read_stream) ''read_some''
     [declval MutableBufferSequence] = Some size_t \<and>
   member_call (declval throwing_read_stream) ''read_some''
     [declval MutableBufferSequence, declval (LRef error_code)] = None \<and>
   \<not> is_SyncReadStream throwing_read_stream \<and>
   member_call (declval throwing_write_stream) ''write_some''
     [declval ConstBufferSequence] = Some size_t \<and>
   member_call (declval throwing_write_stream) ''write_some''
     [declval ConstBufferSequence, declval (LRef error_code)] = None \<and>
   \<not> is_SyncWriteStream throwing_write_stream"
proof -
  have r1: "member_call (declval throwing_read_stream) ''read_some''
      [declval MutableBufferSequence] = Some size_t"
    by (simp add: throwing_read_stream_def member_function_def MutableBufferSequence_def
        BufferSequence_def)
  have r2: "member_call (declval throwing_read_stream) ''read_some''
      [declval MutableBufferSequence, declval (LRef error_code)] = None"
    by (simp add: throwing_read_stream_def member_function_def MutableBufferSequence_def
        BufferSequence_def)
  have w1: "member_call (declval throwing_write_stream) ''write_some''
      [declval ConstBufferSequence] = Some size_t"
    by (simp add: throwing_write_stream_def member_function_def ConstBufferSequence_def
        BufferSequence_def)
  have w2: "member_call (declval throwing_write_stream) ''write_some''
      [declval ConstBufferSequence, declval (LRef error_code)] = None"
    by (simp add: throwing_write_stream_def member_function_def ConstBufferSequence_def
        BufferSequence_def)
  from r2 is_SyncStream_iff [of throwing_read_stream]
  have r: "\<not> is_SyncReadStream throwing_read_stream" by blast
  from w2 is_SyncStream_iff [of throwing_write_stream]
  have w: "\<not> is_SyncWriteStream throwing_write_stream" by blast
  from r1 r2 r w1 w2 w show ?thesis by blast
qed

text \<open>
  C7: \<open>has_get_io_service<T>\<close> is true if and only if the call \<open>get_io_service()\<close>
  with no argument is well-formed and its type is exactly
  \<open>boost::asio::io_service&\<close>; a result of another type does not qualify, even one
  that converts to that reference.
\<close>

theorem has_get_io_service_exact:
  "(has_get_io_service T \<longleftrightarrow>
      member_call (declval T) ''get_io_service'' [] = Some (LRef io_service)) \<and>
   (\<forall>r. member_call (declval T) ''get_io_service'' [] = Some r \<and>
        r \<noteq> LRef io_service \<and> conv r (LRef io_service)
      \<longrightarrow> \<not> has_get_io_service T)"
  unfolding has_get_io_service_def get_io_service_check_def decltype_check_def
  by (auto split: option.splits)

text \<open>
  A stream whose \<open>get_io_service()\<close> returns a reference to a class derived from
  \<open>io_service\<close>, which converts to \<open>io_service&\<close>.
\<close>

theorem has_get_io_service_exact_witness:
  "member_call (declval derived_service_stream) ''get_io_service'' [] =
     Some (LRef derived_io_service) \<and>
   LRef derived_io_service \<noteq> LRef io_service \<and>
   derived_to_base (LRef derived_io_service) (LRef io_service) \<and>
   \<not> has_get_io_service derived_service_stream"
proof -
  have c: "member_call (declval derived_service_stream) ''get_io_service'' [] =
      Some (LRef derived_io_service)"
    by (simp add: derived_service_stream_def member_function_def)
  have n: "LRef derived_io_service \<noteq> LRef io_service"
    by (simp add: derived_io_service_def io_service_def)
  have d: "derived_to_base (LRef derived_io_service) (LRef io_service)"
    by (simp add: derived_to_base_def is_base_of_def derived_io_service_def io_service_def)
  from c n d has_get_io_service_exact [where T = derived_service_stream and conv = derived_to_base]
  have "\<not> has_get_io_service derived_service_stream" by blast
  with c n d show ?thesis by blast
qed

text \<open>
  C8: \<open>is_Handler<T, Signature>\<close> is true if and only if \<open>std::decay_t<T>\<close> is copy
  constructible and \<open>is_call_possible<T, Signature>\<close> holds; a callable that cannot be
  copied yields false although the call is possible.
\<close>

theorem is_Handler_iff:
  "(is_Handler is_call_possible T Sig \<longleftrightarrow>
      is_copy_constructible (decay_t T) \<and> is_call_possible T Sig) \<and>
   (\<not> is_copy_constructible (decay_t T) \<and> is_call_possible T Sig
      \<longrightarrow> \<not> is_Handler is_call_possible T Sig)"
  by (simp add: is_Handler_def)

text \<open>
  A move-only function object taking \<open>(error_code, std::size_t)\<close>, as a value and as a
  reference, beside the copyable \<open>StreamHandler\<close>.
\<close>

theorem is_Handler_iff_witness:
  "decay_t (LRef (Const move_only_handler)) = move_only_handler \<and>
   \<not> is_copy_constructible move_only_handler \<and>
   functor_call_possible move_only_handler handler_signature \<and>
   \<not> is_Handler functor_call_possible move_only_handler handler_signature \<and>
   functor_call_possible (LRef move_only_handler) handler_signature \<and>
   \<not> is_Handler functor_call_possible (LRef move_only_handler) handler_signature \<and>
   is_Handler functor_call_possible StreamHandler handler_signature"
proof -
  have d: "decay_t (LRef (Const move_only_handler)) = move_only_handler"
    by (simp add: decay_t_def move_only_handler_def)
  have d1: "decay_t move_only_handler = move_only_handler"
    by (simp add: decay_t_def move_only_handler_def)
  have d2: "decay_t (LRef move_only_handler) = move_only_handler"
    by (simp add: decay_t_def move_only_handler_def)
  have m: "\<not> is_copy_constructible move_only_handler"
    by (simp add: move_only_handler_def)
  have p1: "functor_call_possible move_only_handler handler_signature"
    by (simp add: functor_call_possible_def handler_signature_def move_only_handler_def
        member_function_def error_code_def size_t_def)
  have p2: "functor_call_possible (LRef move_only_handler) handler_signature"
    by (simp add: functor_call_possible_def handler_signature_def move_only_handler_def
        member_function_def error_code_def size_t_def)
  from m d1 p1
    is_Handler_iff [where T = move_only_handler
      and is_call_possible = functor_call_possible and Sig = handler_signature]
  have h1: "\<not> is_Handler functor_call_possible move_only_handler handler_signature"
    by simp
  from m d2 p2
    is_Handler_iff [where T = "LRef move_only_handler"
      and is_call_possible = functor_call_possible and Sig = handler_signature]
  have h2: "\<not> is_Handler functor_call_possible (LRef move_only_handler) handler_signature"
    by simp
  have h3: "is_Handler functor_call_possible StreamHandler handler_signature"
    by (simp add: is_Handler_def functor_call_possible_def handler_signature_def
        StreamHandler_def decay_t_def member_function_def error_code_def size_t_def)
  from d m p1 h1 p2 h2 h3 show ?thesis by blast
qed

lemmas streambuf_probe_defs =
  Streambuf_prepare_def Streambuf_data_def Streambuf_commit_def Streambuf_consume_def
  Streambuf_size_def

lemma only_error: "(e :: error) = hard_error"
  by (cases e) simp

lemma not_hard_error: "x \<noteq> Inl hard_error \<longleftrightarrow> (\<exists>v. x = Inr v)"
  by (cases x) (simp_all add: only_error)

lemma void_t_all_formed:
  "void_t args = Inr (Some Void) \<longleftrightarrow> list_all (\<lambda>a. \<exists>t. a = Inr (Some t)) args"
  by (induction args rule: void_t.induct) simp_all

lemma void_t_formed:
  "void_t [a, b, c, d, e] = Inr (Some Void) \<longleftrightarrow>
     (\<exists>t. a = Inr (Some t)) \<and> (\<exists>t. b = Inr (Some t)) \<and> (\<exists>t. c = Inr (Some t)) \<and>
     (\<exists>t. d = Inr (Some t)) \<and> (\<exists>t. e = Inr (Some t))"
  by (simp add: void_t_all_formed)

lemma void_t_Some: "void_t args = Inr (Some t) \<Longrightarrow> t = Void"
  by (induction args rule: void_t.induct) simp_all

text \<open>
  \<open>is_Streambuf\<close> is true exactly when all five arguments of \<open>void_t\<close> are formed.
\<close>

lemma is_Streambuf_true:
  "is_Streambuf conv T = Inr True \<longleftrightarrow>
     (\<exists>p. member_call (declval T) ''prepare'' [(prvalue, Scalar int_t)] = Some p \<and>
        is_MutableBufferSequence conv p \<noteq> Inl hard_error) \<and>
     (\<exists>q. member_call (declval T) ''data'' [] = Some q \<and>
        is_ConstBufferSequence conv q \<noteq> Inl hard_error) \<and>
     (\<exists>c. member_call (declval T) ''commit'' [(prvalue, Scalar int_t)] = Some c \<and>
        comma_true_type (call_result c) \<noteq> None) \<and>
     (\<exists>k. member_call (declval T) ''consume'' [(prvalue, Scalar int_t)] = Some k \<and>
        comma_true_type (call_result k) \<noteq> None) \<and>
     member_call (declval T) ''size'' [] \<noteq> None"
proof -
  have "is_Streambuf conv T = Inr True \<longleftrightarrow>
      void_t [Streambuf_prepare conv T, Streambuf_data conv T, Streambuf_commit T,
        Streambuf_consume T, Streambuf_size T] = Inr (Some Void)"
    unfolding is_Streambuf_def
    by (auto split: sum.splits option.splits dest: void_t_Some)
  also have "\<dots> \<longleftrightarrow>
     (\<exists>p. member_call (declval T) ''prepare'' [(prvalue, Scalar int_t)] = Some p \<and>
        is_MutableBufferSequence conv p \<noteq> Inl hard_error) \<and>
     (\<exists>q. member_call (declval T) ''data'' [] = Some q \<and>
        is_ConstBufferSequence conv q \<noteq> Inl hard_error) \<and>
     (\<exists>c. member_call (declval T) ''commit'' [(prvalue, Scalar int_t)] = Some c \<and>
        comma_true_type (call_result c) \<noteq> None) \<and>
     (\<exists>k. member_call (declval T) ''consume'' [(prvalue, Scalar int_t)] = Some k \<and>
        comma_true_type (call_result k) \<noteq> None) \<and>
     member_call (declval T) ''size'' [] \<noteq> None"
    unfolding void_t_formed streambuf_probe_defs not_hard_error
    by (auto split: option.splits sum.splits)
  finally show ?thesis .
qed

lemma streambuf_members_calls:
  "map_of (streambuf_members p q s) (xvalue, False, ''prepare'', [(prvalue, Scalar int_t)]) =
     Some p"
  "map_of (streambuf_members p q s) (xvalue, False, ''data'', []) = Some q"
  "map_of (streambuf_members p q s) (xvalue, False, ''commit'', [(prvalue, Scalar int_t)]) =
     Some Void"
  "map_of (streambuf_members p q s) (xvalue, False, ''consume'', [(prvalue, Scalar int_t)]) =
     Some Void"
  "map_of (streambuf_members p q s) (xvalue, False, ''size'', []) = Some s"
  by (simp_all add: streambuf_members_def member_function_def const_member_function_def)

text \<open>
  C3: the specification has \<open>is_Streambuf<T>\<close> true if and only if the result of
  \<open>prepare(n)\<close> is a mutable buffer sequence, the result of \<open>data()\<close> is a const
  buffer sequence, \<open>commit(n)\<close> and \<open>consume(n)\<close> are well-formed and \<open>size()\<close>
  returns exactly \<open>std::size_t\<close>, so that a \<open>size()\<close> returning a signed type
  gives false. The header's \<open>is_Streambuf\<close> is true for a type that qualifies in every
  other respect and whose \<open>size()\<close> returns \<open>long\<close>.
\<close>

theorem is_Streambuf_signed_size:
  "is_Streambuf conv signed_size_streambuf = Inr True \<and>
   member_call (declval signed_size_streambuf) ''size'' [] = Some (Scalar long_t) \<and>
   Scalar long_t \<noteq> size_t"
  by (simp add: is_Streambuf_true signed_size_streambuf_def streambuf_members_calls
      concept_sequences_evaluate size_t_def)




text \<open>
  C9: for \<open>int\<close> and every other primitive scalar type, each of
  \<open>is_ConstBufferSequence\<close>, \<open>is_MutableBufferSequence\<close>, \<open>has_get_io_service\<close>,
  \<open>is_AsyncReadStream\<close>, \<open>is_AsyncWriteStream\<close>, \<open>is_SyncReadStream\<close>,
  \<open>is_SyncWriteStream\<close>, \<open>is_Stream\<close> and \<open>is_Streambuf\<close> compiles, and its
  value is false.
\<close>

theorem scalar_fails_every_check:
  "is_ConstBufferSequence conv (Scalar s) = Inr False \<and>
   is_MutableBufferSequence conv (Scalar s) = Inr False \<and>
   \<not> has_get_io_service (Scalar s) \<and>
   is_AsyncReadStream (Scalar s) = Inr False \<and>
   is_AsyncWriteStream (Scalar s) = Inr False \<and>
   \<not> is_SyncReadStream (Scalar s) \<and>
   \<not> is_SyncWriteStream (Scalar s) \<and>
   is_Stream (Scalar s) = Inr False \<and>
   is_Streambuf conv (Scalar s) = Inr False"
  by (simp add: is_ConstBufferSequence_def is_MutableBufferSequence_def is_BufferSequence_def
      buffer_check_defs sync_check_defs async_check_defs integral_value_true_false
      is_Stream_def is_Streambuf_def streambuf_probe_defs)

text \<open>
  In the stream checks an operation of the required name whose call has another type than
  the one required keeps the check from being true, as the \<open>read_some\<close> returning
  \<open>std::string\<close> does.
\<close>

lemma wrong_result_type_absorbed:
  "member_call (declval T) ''read_some'' [declval MutableBufferSequence] = Some r \<Longrightarrow>
     r \<noteq> size_t \<Longrightarrow> \<not> is_SyncReadStream T"
  "member_call (declval T) ''read_some''
     [declval MutableBufferSequence, declval (LRef error_code)] = Some r \<Longrightarrow>
     r \<noteq> size_t \<Longrightarrow> \<not> is_SyncReadStream T"
  "member_call (declval T) ''write_some'' [declval ConstBufferSequence] = Some r \<Longrightarrow>
     r \<noteq> size_t \<Longrightarrow> \<not> is_SyncWriteStream T"
  "member_call (declval T) ''write_some''
     [declval ConstBufferSequence, declval (LRef error_code)] = Some r \<Longrightarrow>
     r \<noteq> size_t \<Longrightarrow> \<not> is_SyncWriteStream T"
  "member_call (declval T) ''get_io_service'' [] = Some r \<Longrightarrow>
     r \<noteq> LRef io_service \<Longrightarrow>
     \<not> has_get_io_service T \<and> is_AsyncReadStream T \<noteq> Inr True \<and>
     is_AsyncWriteStream T \<noteq> Inr True"
  by (auto simp: sync_check_defs async_check_defs split: sum.splits)

lemma string_read_stream_fails: "\<not> is_SyncReadStream string_read_stream"
  by (rule wrong_result_type_absorbed(1) [where r = std_string])
     (simp_all add: string_read_stream_def member_function_def MutableBufferSequence_def
       BufferSequence_def std_string_def size_t_def)

text \<open>
  C10: the specification has every check false, and evaluated without failure, on a type
  with an operation of a required name and an incompatible signature. The synchronous
  stream checks and the accessor check are false on such a type, but the header's
  \<open>is_Streambuf\<close> is true for a type whose \<open>size()\<close> returns \<open>std::string\<close>.
\<close>

theorem is_Streambuf_string_size:
  "is_Streambuf conv string_size_streambuf = Inr True \<and>
   member_call (declval string_size_streambuf) ''size'' [] = Some std_string \<and>
   std_string \<noteq> size_t"
  by (simp add: is_Streambuf_true string_size_streambuf_def streambuf_members_calls
      concept_sequences_evaluate size_t_def std_string_def)

end
